theory Spec2Isabelle
  imports Complex_Main "HOL-Library.AList" "HOL-Library.Sublist"
begin

section \<open>Sales dashboard backend: the controller of salesController.ts\<close>

text \<open>
  The development embeds the three parts of \<^verbatim>\<open>src/backend/src/controllers/salesController.ts\<close>
  that carry logic: the loader \<^verbatim>\<open>getSalesData\<close>, the handler \<^verbatim>\<open>getDateRange\<close> and the
  handler \<^verbatim>\<open>getDashboardData\<close>.

  Conventions of the embedding.
  \<^item> A TypeScript \<^verbatim>\<open>number\<close> is an exact rational (\<^typ>\<open>rat\<close>): sums, products and quotients
    are the mathematical ones, without the rounding of IEEE-754 binary64 arithmetic. The two
    accumulations of the sales amounts whose results are compared with each other, the total
    and the sales by city, are embedded a second time with binary64 numbers, where every
    addition rounds (\<open>totalSales64\<close>, \<open>salesByCity64\<close>).
  \<^item> An object used as a dictionary (\<^verbatim>\<open>{ [key: string]: number }\<close>) is the list of its own
    properties in creation order; \<^verbatim>\<open>Object.entries\<close> enumerates them the way ECMAScript
    orders own property keys (array indices first, ascending; then the other strings in
    creation order). The object is created by \<^verbatim>\<open>{}\<close>, so a key it does not own is looked up
    in \<^verbatim>\<open>Object.prototype\<close>: a read of \<^verbatim>\<open>constructor\<close> or \<^verbatim>\<open>__proto__\<close> finds a function or
    an object there, not \<^verbatim>\<open>undefined\<close>, and a write to \<^verbatim>\<open>__proto__\<close> creates no property.
  \<^item> \<^verbatim>\<open>throw\<close> and \<^verbatim>\<open>try/catch\<close> are values of a sum type; the console and the data file are
    an explicit world state passed through the handlers.
  \<^item> \<^verbatim>\<open>JSON.parse\<close>, the parsing of a date string by \<^verbatim>\<open>new Date(s)\<close> and
    \<^verbatim>\<open>Date.prototype.toISOString\<close> are library functions; they are parameters of the
    handlers (\<open>JSON_parse\<close>, \<open>Date_parse\<close>, \<open>toISOString\<close>), and so is the number of
    arguments the engine accepts in one call (\<open>maxArguments\<close>).
\<close>

subsection \<open>Data model\<close>

record SalesRecord =
  RowID :: rat
  OrderID :: string
  OrderDate :: string
  ShipDate :: string
  ShipMode :: string
  CustomerID :: string
  CustomerName :: string
  Segment :: string
  Country :: string
  City :: string
  State :: string
  PostalCode :: rat
  Region :: string
  ProductID :: string
  Category :: string
  SubCategory :: string
  ProductName :: string
  Sales :: rat
  Quantity :: rat
  Discount :: rat
  Profit :: rat

text \<open>
  The value of a property of a dictionary object. The type declares a number; the reducers
  can also store a string, which arises in one way only: as the text of a member of
  \<^verbatim>\<open>Object.prototype\<close> with the decimal texts of numbers appended. \<open>Text name ns\<close> is the
  string that starts with the text of \<^verbatim>\<open>Object.prototype[name]\<close> and goes on with the texts of
  the numbers \<open>ns\<close>, in this order.
\<close>

datatype jsval = Num rat | Text string "rat list"

text \<open>A dictionary object: its own properties, in the order they were created.\<close>

type_synonym dict = "(string \<times> jsval) list"

text \<open>The names of the properties of \<^verbatim>\<open>Object.prototype\<close>.\<close>

definition objectPrototypeNames :: "string list" where
  "objectPrototypeNames =
     [''constructor'', ''__defineGetter__'', ''__defineSetter__'', ''hasOwnProperty'',
      ''__lookupGetter__'', ''__lookupSetter__'', ''isPrototypeOf'', ''propertyIsEnumerable'',
      ''toString'', ''valueOf'', ''__proto__'', ''toLocaleString'']"

text \<open>
  What the read \<^verbatim>\<open>acc[k]\<close> gives: the value of the own property \<open>k\<close>; without one, the
  member \<open>k\<close> of \<^verbatim>\<open>Object.prototype\<close> (a function, or for \<^verbatim>\<open>__proto__\<close> the prototype
  itself); without that, \<^verbatim>\<open>undefined\<close>.
\<close>

datatype 'v property = Undefined | Own 'v | Inherited

definition getProperty :: "(string \<times> 'v) list \<Rightarrow> string \<Rightarrow> 'v property" where
  "getProperty acc k =
     (case map_of acc k of
        Some v \<Rightarrow> Own v
      | None \<Rightarrow> if k \<in> set objectPrototypeNames then Inherited else Undefined)"

text \<open>
  \<^verbatim>\<open>(acc[k] || 0) + n\<close>. \<^verbatim>\<open>undefined\<close> and \<^verbatim>\<open>0\<close> are falsy, so \<^verbatim>\<open>0\<close> stands for them. A
  function, an object and a string that is not empty are truthy, and \<^verbatim>\<open>+\<close> with one of them
  is the concatenation of its text and the text of the number.
\<close>

definition orZeroPlus :: "string \<Rightarrow> jsval property \<Rightarrow> rat \<Rightarrow> jsval" where
  "orZeroPlus k p n =
     (case p of
        Undefined \<Rightarrow> Num (0 + n)
      | Own (Num x) \<Rightarrow> Num ((if x = 0 then 0 else x) + n)
      | Own (Text name ns) \<Rightarrow> Text name (ns @ [n])
      | Inherited \<Rightarrow> Text k [n])"

text \<open>
  The write \<^verbatim>\<open>acc[k] = v\<close>, with \<open>v\<close> a number or a string: an existing property keeps its
  place, a new one is created last. For \<^verbatim>\<open>__proto__\<close> the write goes to the setter of
  \<^verbatim>\<open>Object.prototype\<close>, which ignores a value that is not an object.
\<close>

definition setProperty ::
  "(string \<times> 'v) list \<Rightarrow> string \<Rightarrow> 'v \<Rightarrow> (string \<times> 'v) list" where
  "setProperty acc k v = (if k = ''__proto__'' then acc else AList.update k v acc)"

text \<open>
  One step of the group-by reducers,
  \<^verbatim>\<open>acc[record.F] = (acc[record.F] || 0) + record.Sales; return acc\<close>.
\<close>

definition addSales :: "(SalesRecord \<Rightarrow> string) \<Rightarrow> dict \<Rightarrow> SalesRecord \<Rightarrow> dict" where
  "addSales field acc record =
     setProperty acc (field record)
       (orZeroPlus (field record) (getProperty acc (field record)) (Sales record))"

subsection \<open>Own property order and \<^verbatim>\<open>Object.entries\<close>\<close>

definition isDigit :: "char \<Rightarrow> bool" where
  "isDigit c = (48 \<le> (of_char c :: nat) \<and> (of_char c :: nat) \<le> 57)"

definition digitsValue :: "string \<Rightarrow> nat" where
  "digitsValue s = foldl (\<lambda>n c. 10 * n + ((of_char c :: nat) - 48)) 0 s"

text \<open>
  An array index is a canonical numeric string (no sign, no leading zero) whose value is
  below \<open>2^32 - 1\<close>.
\<close>

definition isArrayIndex :: "string \<Rightarrow> bool" where
  "isArrayIndex s =
     (s \<noteq> [] \<and> list_all isDigit s \<and> (if hd s = CHR ''0'' then s = ''0'' else True)
      \<and> digitsValue s < 2 ^ 32 - 1)"

definition Object_entries :: "dict \<Rightarrow> (string \<times> jsval) list" where
  "Object_entries ob =
     sort_key (\<lambda>p. digitsValue (fst p)) (filter (\<lambda>p. isArrayIndex (fst p)) ob)
     @ filter (\<lambda>p. \<not> isArrayIndex (fst p)) ob"

subsection \<open>\<^verbatim>\<open>Array.prototype.sort\<close>, \<^verbatim>\<open>Math.round\<close>\<close>

text \<open>
  \<^verbatim>\<open>a - b\<close> on two values, \<open>None\<close> for NaN: the text of a function is not the text of a
  number, so a string operand gives NaN.
\<close>

definition minusValues :: "jsval \<Rightarrow> jsval \<Rightarrow> rat option" where
  "minusValues a b = (case (a, b) of (Num x, Num y) \<Rightarrow> Some (x - y) | _ \<Rightarrow> None)"

text \<open>The sort reads a comparator result that is NaN as \<open>+0\<close>.\<close>

definition sortCompare :: "('a \<Rightarrow> 'a \<Rightarrow> rat option) \<Rightarrow> 'a \<Rightarrow> 'a \<Rightarrow> rat" where
  "sortCompare cmp x y = (case cmp x y of None \<Rightarrow> 0 | Some v \<Rightarrow> v)"

text \<open>
  \<^verbatim>\<open>xs.sort(cmp)\<close> is a stable sort (ECMAScript 2019): with a comparator that is a
  consistent ordering the result is the one sorted list that keeps equal elements in their
  original order, which insertion from the right computes. With a comparator that is not
  one (here: as soon as a string stands among the values, whose difference with every
  number is NaN) ECMAScript leaves the order to the implementation; no property below is
  stated for that case.
\<close>

fun insertBy :: "('a \<Rightarrow> 'a \<Rightarrow> rat option) \<Rightarrow> 'a \<Rightarrow> 'a list \<Rightarrow> 'a list" where
  "insertBy cmp x [] = [x]"
| "insertBy cmp x (y # ys) =
     (if sortCompare cmp x y \<le> 0 then x # y # ys else y # insertBy cmp x ys)"

definition Array_sort :: "('a \<Rightarrow> 'a \<Rightarrow> rat option) \<Rightarrow> 'a list \<Rightarrow> 'a list" where
  "Array_sort cmp xs = foldr (insertBy cmp) xs []"

text \<open>\<^verbatim>\<open>Math.round\<close> rounds to the nearest integer, a tie towards \<open>+\<infinity>\<close>.\<close>

definition Math_round :: "rat \<Rightarrow> int" where
  "Math_round x = \<lfloor>x + 1 / 2\<rfloor>"

subsection \<open>The aggregation of \<^verbatim>\<open>getDashboardData\<close>\<close>

text \<open>Each local \<^verbatim>\<open>const\<close> of the handler is a function of \<^verbatim>\<open>filteredData\<close>.\<close>

definition totalSales :: "SalesRecord list \<Rightarrow> rat" where
  "totalSales filteredData = foldl (\<lambda>sum record. sum + Sales record) 0 filteredData"

definition quantitySold :: "SalesRecord list \<Rightarrow> rat" where
  "quantitySold filteredData = foldl (\<lambda>sum record. sum + Quantity record) 0 filteredData"

definition totalDiscount :: "SalesRecord list \<Rightarrow> rat" where
  "totalDiscount filteredData =
     foldl (\<lambda>sum record. sum + Sales record * Discount record) 0 filteredData"

definition totalProfit :: "SalesRecord list \<Rightarrow> rat" where
  "totalProfit filteredData = foldl (\<lambda>sum record. sum + Profit record) 0 filteredData"

definition discountPercentage :: "SalesRecord list \<Rightarrow> rat" where
  "discountPercentage filteredData =
     (if totalSales filteredData > 0
      then (totalDiscount filteredData / totalSales filteredData) * 100 else 0)"

definition salesByCity :: "SalesRecord list \<Rightarrow> dict" where
  "salesByCity filteredData = foldl (addSales City) [] filteredData"

definition productSalesMap :: "SalesRecord list \<Rightarrow> dict" where
  "productSalesMap filteredData = foldl (addSales ProductName) [] filteredData"

text \<open>An element \<^verbatim>\<open>{ name, sales }\<close> or \<^verbatim>\<open>{ name, value }\<close> is the pair of its two fields.\<close>

definition top10Products :: "SalesRecord list \<Rightarrow> (string \<times> jsval) list" where
  "top10Products filteredData =
     map (\<lambda>(name, sales). (name, sales))
       (take 10 (Array_sort (\<lambda>a b. minusValues (snd b) (snd a))
          (Object_entries (productSalesMap filteredData))))"

definition salesByCategory :: "SalesRecord list \<Rightarrow> dict" where
  "salesByCategory filteredData = foldl (addSales Category) [] filteredData"

definition salesBySubCategory :: "SalesRecord list \<Rightarrow> (string \<times> jsval) list" where
  "salesBySubCategory filteredData =
     map (\<lambda>(name, value). (name, value))
       (Object_entries (foldl (addSales SubCategory) [] filteredData))"

definition salesBySegment :: "SalesRecord list \<Rightarrow> dict" where
  "salesBySegment filteredData = foldl (addSales Segment) [] filteredData"

subsection \<open>The total and the sales by city in binary64 arithmetic\<close>

text \<open>
  The two accumulations of the sales amounts, \<^verbatim>\<open>totalSales\<close> and \<^verbatim>\<open>salesByCity\<close>, once more,
  now with the arithmetic of the engine: every number is an IEEE-754 binary64 number and
  every \<^verbatim>\<open>+\<close> rounds its exact result to the nearest one.

  A binary64 number is a finite one, given by the rational it denotes, an infinity or NaN.
  The two zeros are one value here: \<open>-0\<close> is falsy like \<open>+0\<close>, and both accumulations start
  from \<open>+0\<close>, which added to \<open>-0\<close> gives \<open>+0\<close>.
\<close>

datatype binary64 = Finite rat | PosInf | NegInf | NaN

text \<open>
  The position of the leading bit of a positive integer:
  \<open>2 ^ log2floor n \<le> n < 2 ^ (log2floor n + 1)\<close>.
\<close>

fun log2floor :: "nat \<Rightarrow> nat" where
  "log2floor n = (if n < 2 then 0 else Suc (log2floor (n div 2)))"

definition pow2 :: "int \<Rightarrow> rat" where
  "pow2 e = (if 0 \<le> e then 2 ^ nat e else 1 / 2 ^ nat (- e))"

text \<open>
  The binary exponent of a positive rational:
  \<open>pow2 (exponent x) \<le> x < pow2 (exponent x + 1)\<close>.
\<close>

definition exponent :: "rat \<Rightarrow> int" where
  "exponent x =
     (case quotient_of x of
        (p, q) \<Rightarrow>
          let d = int (log2floor (nat p)) - int (log2floor (nat q))
          in if pow2 d \<le> x then d else d - 1)"

text \<open>The nearest integer, a tie to the even one.\<close>

definition roundHalfEven :: "rat \<Rightarrow> int" where
  "roundHalfEven m =
     (let f = \<lfloor>m\<rfloor>; r = m - of_int f
      in if r < 1 / 2 then f else if 1 / 2 < r then f + 1 else if even f then f else f + 1)"

text \<open>
  Rounding to nearest, ties to even. The significand has 53 bits, so the numbers around
  \<open>x\<close> are the multiples of \<open>pow2 (e - 52)\<close>, \<open>e\<close> the exponent of \<open>\<bar>x\<bar>\<close> and at least \<open>-1022\<close>
  (below \<open>pow2 (- 1022)\<close> the numbers are the multiples of \<open>pow2 (- 1074)\<close>); a result that
  reaches \<open>pow2 1024\<close> is an infinity.
\<close>

definition round64 :: "rat \<Rightarrow> binary64" where
  "round64 x =
     (if x = 0 then Finite 0
      else
        let e = max (exponent \<bar>x\<bar>) (- 1022);
            ulp = pow2 (e - 52);
            y = of_int (roundHalfEven (\<bar>x\<bar> / ulp)) * ulp
        in if pow2 1024 \<le> y then (if 0 < x then PosInf else NegInf)
           else Finite (sgn x * y))"







text \<open>The \<^verbatim>\<open>response\<close> object of the handler.\<close>

record Summary =
  r_totalSales :: int
  r_quantitySold :: rat
  r_discountPercentage :: rat
  r_totalProfit :: int
  r_salesByCity :: dict
  r_salesByProducts :: "(string \<times> jsval) list"
  r_salesByCategory :: dict
  r_salesBySubCategory :: "(string \<times> jsval) list"
  r_salesBySegment :: dict

definition response :: "SalesRecord list \<Rightarrow> Summary" where
  "response filteredData =
     \<lparr> r_totalSales = Math_round (totalSales filteredData),
       r_quantitySold = quantitySold filteredData,
       r_discountPercentage = of_int (Math_round (discountPercentage filteredData * 10)) / 10,
       r_totalProfit = Math_round (totalProfit filteredData),
       r_salesByCity = salesByCity filteredData,
       r_salesByProducts = top10Products filteredData,
       r_salesByCategory = salesByCategory filteredData,
       r_salesBySubCategory = salesBySubCategory filteredData,
       r_salesBySegment = salesBySegment filteredData \<rparr>"

subsection \<open>World state, exceptions and responses\<close>

datatype logArg = LogNum rat | LogStr "string option"

datatype logLine = ConsoleLog string "logArg list" | ConsoleError string

text \<open>
  \<open>salesJson\<close> is the content of \<^verbatim>\<open>../data/sales.json\<close>, \<open>None\<close> when the file cannot be
  read; \<open>console\<close> is what has been written to the console so far.
\<close>

record world =
  salesJson :: "string option"
  console :: "logLine list"

datatype jsError = FsError | JsonError | RangeError | Error string

definition consoleLog :: "string \<Rightarrow> logArg list \<Rightarrow> world \<Rightarrow> world" where
  "consoleLog msg args w = w\<lparr>console := console w @ [ConsoleLog msg args]\<rparr>"

definition consoleError :: "string \<Rightarrow> world \<Rightarrow> world" where
  "consoleError msg w = w\<lparr>console := console w @ [ConsoleError msg]\<rparr>"

definition readFileSync :: "world \<Rightarrow> jsError + string" where
  "readFileSync w = (case salesJson w of None \<Rightarrow> Inl FsError | Some rawData \<Rightarrow> Inr rawData)"

text \<open>What a handler sends: the HTTP status and the JSON body.\<close>

datatype body =
    ErrorBody string
  | DateRangeBody string string
  | SummaryBody Summary

type_synonym reply = "nat \<times> body"

subsection \<open>\<^verbatim>\<open>getSalesData\<close>\<close>

text \<open>
  \<open>JSON_parse\<close> stands for \<^verbatim>\<open>JSON.parse\<close> followed by the read of \<^verbatim>\<open>salesData.length\<close>:
  \<open>None\<close> when that throws, the records otherwise. The body of the \<^verbatim>\<open>try\<close> comes first,
  then the function with its \<^verbatim>\<open>catch\<close>. The result type leaves room for an exception
  that escapes.
\<close>

definition getSalesData_try ::
  "(string \<Rightarrow> SalesRecord list option) \<Rightarrow> world \<Rightarrow> (jsError + SalesRecord list) \<times> world" where
  "getSalesData_try JSON_parse w =
     (let w1 = consoleLog ''Reading sales data from:'' [] w in
      case readFileSync w1 of
        Inl e \<Rightarrow> (Inl e, w1)
      | Inr rawData \<Rightarrow>
          (case JSON_parse rawData of
             None \<Rightarrow> (Inl JsonError, w1)
           | Some salesData \<Rightarrow>
               (Inr salesData,
                consoleLog ''Successfully loaded sales data. Number of records:''
                  [LogNum (of_nat (length salesData))] w1)))"

definition getSalesData ::
  "(string \<Rightarrow> SalesRecord list option) \<Rightarrow> world \<Rightarrow> (jsError + SalesRecord list) \<times> world" where
  "getSalesData JSON_parse w =
     (case getSalesData_try JSON_parse w of
        (Inl error, w1) \<Rightarrow> (Inr [], consoleError ''Error reading sales data:'' w1)
      | (Inr salesData, w1) \<Rightarrow> (Inr salesData, w1))"

subsection \<open>\<^verbatim>\<open>getDateRange\<close>\<close>

text \<open>
  A \<^verbatim>\<open>Date\<close> is its time value in milliseconds, \<open>None\<close> for an invalid date (time value NaN).
  \<open>dateOfMin maxArguments ts\<close> is \<^verbatim>\<open>new Date(Math.min(...ts))\<close>. The spread passes every
  element of \<open>ts\<close> as an argument of one call, and a call with more arguments than the engine
  accepts throws a RangeError; \<open>maxArguments\<close>, the greatest number it accepts, is a parameter.
  Otherwise the result is NaN as soon as one argument is NaN, and an invalid date too when
  there is no argument (\<^verbatim>\<open>Math.min()\<close> is \<open>+\<infinity>\<close>).
\<close>

definition dateOfMin :: "nat \<Rightarrow> int option list \<Rightarrow> jsError + int option" where
  "dateOfMin maxArguments ts =
     (if maxArguments < length ts then Inl RangeError
      else Inr (if ts = [] \<or> None \<in> set ts then None else Some (Min (set (map the ts)))))"

definition dateOfMax :: "nat \<Rightarrow> int option list \<Rightarrow> jsError + int option" where
  "dateOfMax maxArguments ts =
     (if maxArguments < length ts then Inl RangeError
      else Inr (if ts = [] \<or> None \<in> set ts then None else Some (Max (set (map the ts)))))"

text \<open>\<^verbatim>\<open>d.toISOString().split('T')[0]\<close>; \<^verbatim>\<open>toISOString\<close> throws a RangeError on an invalid date.\<close>

definition isoDay :: "(int \<Rightarrow> string) \<Rightarrow> int option \<Rightarrow> jsError + string" where
  "isoDay toISOString d =
     (case d of
        None \<Rightarrow> Inl RangeError
      | Some t \<Rightarrow> Inr (takeWhile (\<lambda>c. c \<noteq> CHR ''T'') (toISOString t)))"

definition getDateRange_try ::
  "(string \<Rightarrow> SalesRecord list option) \<Rightarrow> (string \<Rightarrow> int option) \<Rightarrow> (int \<Rightarrow> string)
     \<Rightarrow> nat \<Rightarrow> string \<Rightarrow> world \<Rightarrow> (jsError + reply) \<times> world" where
  "getDateRange_try JSON_parse Date_parse toISOString maxArguments state w =
     (case getSalesData JSON_parse w of
        (Inl e, w1) \<Rightarrow> (Inl e, w1)
      | (Inr salesData, w1) \<Rightarrow>
          (let stateRecords = filter (\<lambda>record. State record = state) salesData in
           if length stateRecords = 0 then (Inr (404, ErrorBody ''State not found''), w1)
           else
             (let dates = map (\<lambda>record. Date_parse (OrderDate record)) stateRecords in
              case dateOfMin maxArguments dates of
                Inl e \<Rightarrow> (Inl e, w1)
              | Inr minDate \<Rightarrow>
                  (case dateOfMax maxArguments dates of
                     Inl e \<Rightarrow> (Inl e, w1)
                   | Inr maxDate \<Rightarrow>
                       (case isoDay toISOString minDate of
                          Inl e \<Rightarrow> (Inl e, w1)
                        | Inr minDay \<Rightarrow>
                            (case isoDay toISOString maxDate of
                               Inl e \<Rightarrow> (Inl e, w1)
                             | Inr maxDay \<Rightarrow>
                                 (Inr (200, DateRangeBody minDay maxDay), w1)))))))"

definition getDateRange ::
  "(string \<Rightarrow> SalesRecord list option) \<Rightarrow> (string \<Rightarrow> int option) \<Rightarrow> (int \<Rightarrow> string)
     \<Rightarrow> nat \<Rightarrow> string \<Rightarrow> world \<Rightarrow> reply \<times> world" where
  "getDateRange JSON_parse Date_parse toISOString maxArguments state w =
     (case getDateRange_try JSON_parse Date_parse toISOString maxArguments state w of
        (Inl error, w1) \<Rightarrow> ((500, ErrorBody ''Failed to fetch date range''), w1)
      | (Inr r, w1) \<Rightarrow> (r, w1))"

subsection \<open>\<^verbatim>\<open>getDashboardData\<close>\<close>

text \<open>The query parameters \<^verbatim>\<open>req.query\<close>: each a string, or \<^verbatim>\<open>undefined\<close>.\<close>

record query =
  state :: "string option"
  startDate :: "string option"
  endDate :: "string option"

text \<open>Truthiness of a query parameter: \<^verbatim>\<open>undefined\<close> and the empty string are falsy.\<close>

definition truthy :: "string option \<Rightarrow> bool" where
  "truthy v = (case v of None \<Rightarrow> False | Some s \<Rightarrow> s \<noteq> [])"

text \<open>\<^verbatim>\<open>a >= b\<close> and \<^verbatim>\<open>a <= b\<close> on dates compare the time values; with a NaN both are false.\<close>

definition dateGe :: "int option \<Rightarrow> int option \<Rightarrow> bool" where
  "dateGe a b = (case (a, b) of (Some x, Some y) \<Rightarrow> x \<ge> y | _ \<Rightarrow> False)"

definition dateLe :: "int option \<Rightarrow> int option \<Rightarrow> bool" where
  "dateLe a b = (case (a, b) of (Some x, Some y) \<Rightarrow> x \<le> y | _ \<Rightarrow> False)"

text \<open>The two filter blocks, each returning the new \<^verbatim>\<open>filteredData\<close> and the world.\<close>

definition filterByState :: "string option \<Rightarrow> SalesRecord list \<times> world \<Rightarrow> SalesRecord list \<times> world" where
  "filterByState st fw =
     (case fw of (filteredData, w) \<Rightarrow>
        if truthy st \<and> st \<noteq> Some ''All States'' then
          (let filtered = filter (\<lambda>record. Some (State record) = st) filteredData in
           (filtered,
            consoleLog ''Filtered by state. Records remaining:''
              [LogNum (of_nat (length filtered))] w))
        else (filteredData, w))"

definition filterByDate ::
  "(string \<Rightarrow> int option) \<Rightarrow> string option \<Rightarrow> string option
     \<Rightarrow> SalesRecord list \<times> world \<Rightarrow> SalesRecord list \<times> world" where
  "filterByDate Date_parse sd ed fw =
     (case fw of (filteredData, w) \<Rightarrow>
        (case (sd, ed) of
           (Some s, Some e) \<Rightarrow>
             if truthy sd \<and> truthy ed then
               (let filtered =
                      filter (\<lambda>record.
                          let recordDate = Date_parse (OrderDate record);
                              start = Date_parse s;
                              end = Date_parse e
                          in dateGe recordDate start \<and> dateLe recordDate end) filteredData
                in (filtered,
                    consoleLog ''Filtered by date range. Records remaining:''
                      [LogNum (of_nat (length filtered))] w))
             else (filteredData, w)
         | _ \<Rightarrow> (filteredData, w)))"

definition getDashboardData_try ::
  "(string \<Rightarrow> SalesRecord list option) \<Rightarrow> (string \<Rightarrow> int option)
     \<Rightarrow> query \<Rightarrow> world \<Rightarrow> (jsError + reply) \<times> world" where
  "getDashboardData_try JSON_parse Date_parse q w =
     (let w0 = consoleLog ''Received request with params:''
                 [LogStr (state q), LogStr (startDate q), LogStr (endDate q)] w
      in case getSalesData JSON_parse w0 of
           (Inl e, w1) \<Rightarrow> (Inl e, w1)
         | (Inr salesData, w1) \<Rightarrow>
             if length salesData = 0 then (Inl (Error ''No sales data available''), w1)
             else
               (case filterByDate Date_parse (startDate q) (endDate q)
                       (filterByState (state q) (salesData, w1)) of
                  (filteredData, w2) \<Rightarrow>
                    (Inr (200, SummaryBody (response filteredData)),
                     consoleLog ''Sending response with data:''
                       [LogNum (of_int (r_totalSales (response filteredData))),
                        LogNum (of_nat (length filteredData))] w2)))"

definition getDashboardData ::
  "(string \<Rightarrow> SalesRecord list option) \<Rightarrow> (string \<Rightarrow> int option)
     \<Rightarrow> query \<Rightarrow> world \<Rightarrow> reply \<times> world" where
  "getDashboardData JSON_parse Date_parse q w =
     (case getDashboardData_try JSON_parse Date_parse q w of
        (Inl error, w1) \<Rightarrow>
          ((500, ErrorBody ''Failed to process dashboard data''),
           consoleError ''Error processing dashboard data:'' w1)
      | (Inr r, w1) \<Rightarrow> (r, w1))"

subsection \<open>Notions used to state the properties\<close>

text \<open>The distinct elements of a list, in the order of their first occurrence.\<close>

definition encounterOrder :: "'a list \<Rightarrow> 'a list" where
  "encounterOrder xs = rev (remdups (rev xs))"

text \<open>The sum of the sales of the records whose \<open>field\<close> is \<open>k\<close>, added in record order.\<close>

definition groupSum :: "(SalesRecord \<Rightarrow> string) \<Rightarrow> string \<Rightarrow> SalesRecord list \<Rightarrow> rat" where
  "groupSum field k rs = foldl (\<lambda>sum r. sum + Sales r) 0 (filter (\<lambda>r. field r = k) rs)"


text \<open>
  The rational \<open>x\<close> is a binary64 number. The accumulations of \<open>rs\<close> round nowhere: every
  amount, every running total and every running sum of a key is a binary64 number.
\<close>

definition exact :: "rat \<Rightarrow> bool" where
  "exact x = (round64 x = Finite x)"

definition exactSums :: "(SalesRecord \<Rightarrow> string) \<Rightarrow> SalesRecord list \<Rightarrow> bool" where
  "exactSums field rs =
     (list_all (\<lambda>r. exact (Sales r)) rs
      \<and> list_all (\<lambda>p. exact (totalSales p) \<and> list_all (\<lambda>r. exact (groupSum field (field r) p)) p)
          (prefixes rs))"

text \<open>
  The order in which the keys \<open>ks\<close>, created in this order, are enumerated: the array
  indices by ascending value, then the other keys as created.
\<close>

definition ownPropertyKeys :: "string list \<Rightarrow> string list" where
  "ownPropertyKeys ks =
     sort_key digitsValue (filter isArrayIndex ks) @ filter (\<lambda>k. \<not> isArrayIndex k) ks"


text \<open>A string written \<^verbatim>\<open>YYYY-MM-DD\<close>.\<close>

definition isCalendarDate :: "string \<Rightarrow> bool" where
  "isCalendarDate s =
     (length s = 10 \<and> list_all isDigit (take 4 s) \<and> s ! 4 = CHR ''-''
      \<and> list_all isDigit (take 2 (drop 5 s)) \<and> s ! 7 = CHR ''-''
      \<and> list_all isDigit (drop 8 s))"

text \<open>
  The date string \<open>s\<close> parses to a valid date, and the date part of the ISO string of that
  date is \<open>s\<close> again.
\<close>

definition printsBack :: "(string \<Rightarrow> int option) \<Rightarrow> (int \<Rightarrow> string) \<Rightarrow> string \<Rightarrow> bool" where
  "printsBack Date_parse toISOString s =
     (case Date_parse s of
        None \<Rightarrow> False
      | Some t \<Rightarrow> takeWhile (\<lambda>c. c \<noteq> CHR ''T'') (toISOString t) = s)"

subsection \<open>Sample data\<close>

definition blankRecord :: SalesRecord where
  "blankRecord =
     \<lparr> RowID = 0, OrderID = [], OrderDate = [], ShipDate = [], ShipMode = [],
       CustomerID = [], CustomerName = [], Segment = [], Country = [], City = [],
       State = [], PostalCode = 0, Region = [], ProductID = [], Category = [],
       SubCategory = [], ProductName = [], Sales = 0, Quantity = 0, Discount = 0,
       Profit = 0 \<rparr>"

text \<open>The two records of the specification's worked example.\<close>

definition specExample :: "SalesRecord list" where
  "specExample =
     [blankRecord\<lparr>City := ''A'', Sales := 100, Discount := 1 / 10, Quantity := 2, Profit := 10\<rparr>,
      blankRecord\<lparr>City := ''B'', Sales := 50, Discount := 2 / 10, Quantity := 1, Profit := 5\<rparr>]"

text \<open>A refund: one record with a negative sales amount.\<close>

definition refundExample :: "SalesRecord list" where
  "refundExample = [blankRecord\<lparr>Sales := - 100, Discount := 1 / 2\<rparr>]"



text \<open>
  Four orders, three of them from Texas, with their order dates; and one Texas order whose
  order date is not a date.
\<close>

definition texasExample :: "SalesRecord list" where
  "texasExample =
     [blankRecord\<lparr>State := ''Texas'', OrderDate := ''2017-06-15'', City := ''Austin'', Sales := 10\<rparr>,
      blankRecord\<lparr>State := ''Ohio'', OrderDate := ''2017-12-31'', City := ''Akron'', Sales := 20\<rparr>,
      blankRecord\<lparr>State := ''Texas'', OrderDate := ''2017-01-01'', City := ''Dallas'', Sales := 30\<rparr>,
      blankRecord\<lparr>State := ''Texas'', OrderDate := ''2017-12-31'', City := ''Austin'', Sales := 40\<rparr>]"

definition badDateExample :: "SalesRecord list" where
  "badDateExample = [blankRecord\<lparr>State := ''Texas'', OrderDate := ''soon'', Sales := 10\<rparr>]"

text \<open>Ten million Texas orders of one day.\<close>

definition manyOrdersExample :: "SalesRecord list" where
  "manyOrdersExample =
     replicate 10000000 (blankRecord\<lparr>State := ''Texas'', OrderDate := ''2017-06-15''\<rparr>)"

text \<open>One Texas order of 8 November 2016, its date written month first.\<close>

definition monthFirstExample :: "SalesRecord list" where
  "monthFirstExample = [blankRecord\<lparr>State := ''Texas'', OrderDate := ''11/8/2016''\<rparr>]"




text \<open>
  Instances of the library parameters, defined on what the examples use.
  \<open>sampleJSON_parse\<close> knows six file contents, five of them named after the record list
  they stand for; every other content is rejected as \<^verbatim>\<open>JSON.parse\<close> rejects malformed text.
  \<open>sampleDate_parse\<close> maps three ISO dates to their time values (UTC midnight), the
  month-first date \<^verbatim>\<open>11/8/2016\<close> to the time value of its local midnight on a server whose
  time zone is UTC+05:30 (a date in this form is read as local time), and every other string
  to an invalid date. \<open>sampleToISOString\<close> prints these four time values.
  \<open>sampleMaxArguments\<close> is an argument limit of the order of that of V8.
\<close>

definition sampleJSON_parse :: "string \<Rightarrow> SalesRecord list option" where
  "sampleJSON_parse rawData =
     map_of [(''[]'', []), (''specExample'', specExample), (''texasExample'', texasExample),
             (''badDateExample'', badDateExample), (''manyOrdersExample'', manyOrdersExample),
             (''monthFirstExample'', monthFirstExample)] rawData"

definition sampleDate_parse :: "string \<Rightarrow> int option" where
  "sampleDate_parse s =
     map_of [(''2017-01-01'', 1483228800000), (''2017-06-15'', 1497484800000),
             (''2017-12-31'', 1514678400000), (''11/8/2016'', 1478543400000)] s"

definition sampleToISOString :: "int \<Rightarrow> string" where
  "sampleToISOString t =
     (if t = 1483228800000 then ''2017-01-01T00:00:00.000Z''
      else if t = 1497484800000 then ''2017-06-15T00:00:00.000Z''
      else if t = 1514678400000 then ''2017-12-31T00:00:00.000Z''
      else if t = 1478543400000 then ''2016-11-07T18:30:00.000Z''
      else [])"

definition sampleMaxArguments :: nat where
  "sampleMaxArguments = 125000"

definition worldWith :: "string option \<Rightarrow> world" where
  "worldWith file = \<lparr> salesJson = file, console = [] \<rparr>"

section \<open>Properties\<close>

subsection \<open>Sums and groupings\<close>

lemma foldl_plus: "foldl (\<lambda>s r. s + f r) a xs = a + sum_list (map f xs)" for a :: rat
  by (induction xs arbitrary: a) (simp_all add: add.assoc)

lemma encounterOrder_Nil [simp]: "encounterOrder [] = []"
  by (simp add: encounterOrder_def)


lemma set_encounterOrder [simp]: "set (encounterOrder xs) = set xs"
  by (simp add: encounterOrder_def)

lemma distinct_encounterOrder [simp]: "distinct (encounterOrder xs)"
  by (simp add: encounterOrder_def)

text \<open>Read from the front: the head comes first, and is dropped from what follows.\<close>

lemma remdups_snoc: "remdups (ys @ [x]) = removeAll x (remdups ys) @ [x]"
  by (induction ys) auto

lemma rev_removeAll: "rev (removeAll x xs) = removeAll x (rev xs)"
  by (induction xs) auto

lemma encounterOrder_Cons:
  "encounterOrder (x # xs) = x # removeAll x (encounterOrder xs)"
  by (simp add: encounterOrder_def remdups_snoc rev_removeAll)







lemma groupSum_sum_list:
  "groupSum field k rs = sum_list (map Sales (filter (\<lambda>r. field r = k) rs))"
  by (simp add: groupSum_def foldl_plus)






subsection \<open>Enumeration order and sorting\<close>




lemma set_ownPropertyKeys [simp]: "set (ownPropertyKeys ks) = set ks"
  by (auto simp: ownPropertyKeys_def)







lemma Math_round_eq: "Math_round x = n \<longleftrightarrow> of_int n \<le> x + 1 / 2 \<and> x + 1 / 2 < of_int n + 1"
  by (simp add: Math_round_def floor_eq_iff)



lemma not_isArrayIndex_Nil: "\<not> isArrayIndex []"
  by (simp add: isArrayIndex_def)

subsection \<open>Binary64 rounding and the accumulations that do not round\<close>

text \<open>The recursion of \<open>log2floor\<close> is unfolded on demand only.\<close>

declare log2floor.simps [simp del]

lemma log2floor_1: "log2floor (Suc 0) = 0"
  by (simp add: log2floor.simps)










lemma log2floor_bounds: "0 < n \<Longrightarrow> 2 ^ log2floor n \<le> n \<and> n < 2 ^ Suc (log2floor n)"
proof (induction n rule: log2floor.induct)
  case (1 n)
  show ?case
  proof (cases "n < 2")
    case True
    with 1 have "n = 1" by simp
    then show ?thesis by (simp add: log2floor.simps)
  next
    case False
    then have "0 < n div 2" by simp
    from 1(1) [OF False this] have "2 ^ log2floor (n div 2) \<le> n div 2"
      and "n div 2 < 2 ^ Suc (log2floor (n div 2))" by simp_all
    then have "2 * 2 ^ log2floor (n div 2) \<le> n" and "n < 2 * 2 ^ Suc (log2floor (n div 2))"
      by linarith+
    with False show ?thesis by (simp add: log2floor.simps [of n])
  qed
qed

lemma exponent_of_nat: "0 < n \<Longrightarrow> exponent (of_nat n) = int (log2floor n)"
proof -
  assume n: "0 < n"
  have q: "quotient_of (of_nat n :: rat) = (int n, 1)"
    using quotient_of_int [of "int n"] by simp
  from log2floor_bounds [OF n] have "(2::nat) ^ log2floor n \<le> n" by simp
  then have "(of_nat (2 ^ log2floor n) :: rat) \<le> of_nat n"
    by (simp only: of_nat_le_iff)
  then have "pow2 (int (log2floor n)) \<le> of_nat n"
    by (simp add: pow2_def)
  then show ?thesis
    by (simp add: exponent_def q log2floor_1 Let_def)
qed

lemma roundHalfEven_of_int: "roundHalfEven (of_int k) = k"
  by (simp add: roundHalfEven_def)

lemma exact_of_nat:
  assumes "n \<le> 2 ^ 53"
  shows "exact (of_nat n)" and "exact (- of_nat n)"
proof -
  have "round64 (of_nat n) = Finite (of_nat n) \<and> round64 (- of_nat n) = Finite (- of_nat n)"
  proof (cases "n = 0")
    case True
    then show ?thesis by (simp add: round64_def)
  next
    case False
    then have n: "0 < n" by simp
    define e where "e = log2floor n"
    from log2floor_bounds [OF n] have lo: "2 ^ e \<le> n" and hi: "n < 2 ^ Suc e"
      by (simp_all add: e_def)
    have e53: "e \<le> 53"
    proof (rule ccontr)
      assume "\<not> e \<le> 53"
      then have "54 \<le> e" by simp
      then have "(2::nat) ^ 54 \<le> 2 ^ e" by (intro power_increasing) simp_all
      with lo assms show False by simp
    qed
    have ex: "exponent \<bar>of_nat n\<bar> = int e" "exponent \<bar>- of_nat n\<bar> = int e"
      using exponent_of_nat [OF n] by (simp_all add: e_def)
    define ulp where "ulp = pow2 (int e - 52)"
    have ulp_pos: "0 < ulp" by (simp add: ulp_def pow2_def)
    have "\<exists>k. (of_nat n :: rat) / ulp = of_int k"
    proof (cases "e \<le> 52")
      case True
      then have "ulp = 1 / 2 ^ (52 - e)"
        by (auto simp: ulp_def pow2_def nat_diff_distrib' dest: antisym)
      then have "(of_nat n :: rat) / ulp = of_int (int n * 2 ^ (52 - e))" by simp
      then show ?thesis ..
    next
      case False
      with e53 have e: "e = 53" by simp
      with lo assms have "n = 2 ^ 53" by simp
      moreover from e have "ulp = 2" by (simp add: ulp_def pow2_def)
      ultimately have "(of_nat n :: rat) / ulp = of_int (2 ^ 52)" by simp
      then show ?thesis ..
    qed
    then obtain k where k: "(of_nat n :: rat) / ulp = of_int k" ..
    then have y: "of_int (roundHalfEven (of_nat n / ulp)) * ulp = (of_nat n :: rat)"
      using ulp_pos by (simp add: roundHalfEven_of_int field_simps)
    have "(of_nat n :: rat) \<le> of_nat (2 ^ 53)"
      using assms by (simp only: of_nat_le_iff)
    then have small: "\<not> pow2 1024 \<le> (of_nat n :: rat)"
      by (simp add: pow2_def)
    have main: "round64 x = Finite x" if x: "\<bar>x\<bar> = of_nat n" for x :: rat
    proof -
      from x n have x0: "x \<noteq> 0" by auto
      have e': "max (exponent \<bar>x\<bar>) (- 1022) = int e"
        by (simp add: x exponent_of_nat [OF n] e_def)
      have y': "of_int (roundHalfEven (\<bar>x\<bar> / pow2 (int e - 52))) * pow2 (int e - 52) = \<bar>x\<bar>"
        using y by (simp add: x ulp_def)
      have small': "\<not> pow2 1024 \<le> \<bar>x\<bar>"
        using small by (simp add: x)
      show ?thesis
        unfolding round64_def Let_def e' y'
        using x0 small' by (simp add: mult_sgn_abs)
    qed
    show ?thesis
      using main [of "of_nat n"] main [of "- of_nat n"] by simp
  qed
  then show "exact (of_nat n)" and "exact (- of_nat n)"
    by (simp_all add: exact_def)
qed

lemma exact_of_int: "\<bar>i\<bar> \<le> 2 ^ 53 \<Longrightarrow> exact (of_int i)"
proof -
  assume a: "\<bar>i\<bar> \<le> 2 ^ 53"
  then have "nat \<bar>i\<bar> \<le> 2 ^ 53" by simp
  from exact_of_nat [OF this] show ?thesis
    by (cases "0 \<le> i") (simp_all add: abs_if)
qed

lemma exact_Ints: "x \<in> \<int> \<Longrightarrow> \<bar>x\<bar> \<le> 2 ^ 53 \<Longrightarrow> exact x"
proof -
  assume "x \<in> \<int>" and b: "\<bar>x\<bar> \<le> 2 ^ 53"
  then obtain i where x: "x = of_int i" by (auto elim: Ints_cases)
  with b have "(of_int \<bar>i\<bar> :: rat) \<le> of_int (2 ^ 53)" by simp
  then have "\<bar>i\<bar> \<le> 2 ^ 53" by (simp only: of_int_le_iff)
  then show ?thesis unfolding x by (rule exact_of_int)
qed

lemma sum_list_Ints: "list_all (\<lambda>r. f r \<in> \<int>) xs \<Longrightarrow> sum_list (map f xs) \<in> \<int>"
  for f :: "'a \<Rightarrow> rat"
  by (induction xs) simp_all

lemma sum_list_abs_filter:
  "sum_list (map (\<lambda>r. \<bar>f r\<bar>) (filter P xs)) \<le> sum_list (map (\<lambda>r. \<bar>f r\<bar>) xs)"
  for f :: "'a \<Rightarrow> rat"
  by (induction xs) (simp_all add: add_increasing)

lemma abs_sum_list_le: "\<bar>sum_list (map f xs)\<bar> \<le> sum_list (map (\<lambda>r. \<bar>f r\<bar>) xs)"
  for f :: "'a \<Rightarrow> rat"
  by (induction xs) (simp_all add: abs_triangle_ineq [THEN order_trans])

lemma sum_list_abs_prefix:
  "prefix p xs \<Longrightarrow> sum_list (map (\<lambda>r. \<bar>f r\<bar>) p) \<le> sum_list (map (\<lambda>r. \<bar>f r\<bar>) xs)"
  for f :: "'a \<Rightarrow> rat"
proof -
  assume "prefix p xs"
  then obtain q where "xs = p @ q" by (auto simp: prefix_def)
  moreover have "0 \<le> sum_list (map (\<lambda>r. \<bar>f r\<bar>) q)"
    by (rule sum_list_nonneg) auto
  ultimately show ?thesis by simp
qed

text \<open>
  Integer amounts whose absolute values sum to at most \<open>2^53\<close> are accumulated without
  rounding.
\<close>

lemma exactSums_integers:
  assumes int: "list_all (\<lambda>r. Sales r \<in> \<int>) rs"
    and bound: "sum_list (map (\<lambda>r. \<bar>Sales r\<bar>) rs) \<le> 2 ^ 53"
  shows "exactSums field rs"
proof -
  have part: "exact (sum_list (map Sales (filter P p)))" if p: "prefix p rs" for p P
  proof (rule exact_Ints)
    from p have sub: "set p \<subseteq> set rs" by (rule set_mono_prefix)
    with int have "list_all (\<lambda>r. Sales r \<in> \<int>) (filter P p)"
      by (auto simp: list_all_iff)
    then show "sum_list (map Sales (filter P p)) \<in> \<int>" by (rule sum_list_Ints)
    have "\<bar>sum_list (map Sales (filter P p))\<bar> \<le> sum_list (map (\<lambda>r. \<bar>Sales r\<bar>) (filter P p))"
      by (rule abs_sum_list_le)
    also have "\<dots> \<le> sum_list (map (\<lambda>r. \<bar>Sales r\<bar>) p)"
      by (rule sum_list_abs_filter)
    also have "\<dots> \<le> sum_list (map (\<lambda>r. \<bar>Sales r\<bar>) rs)"
      using p by (rule sum_list_abs_prefix)
    also note bound
    finally show "\<bar>sum_list (map Sales (filter P p))\<bar> \<le> 2 ^ 53" .
  qed
  have one: "exact (Sales r)" if r: "r \<in> set rs" for r
  proof (rule exact_Ints)
    from int r show "Sales r \<in> \<int>" by (simp add: list_all_iff)
    from r have "\<bar>Sales r\<bar> \<le> sum_list (map (\<lambda>r. \<bar>Sales r\<bar>) rs)"
      by (intro member_le_sum_list) auto
    with bound show "\<bar>Sales r\<bar> \<le> 2 ^ 53" by simp
  qed
  have total: "exact (totalSales p)" if p: "prefix p rs" for p
    using part [OF p, of "\<lambda>r. True"] by (simp add: totalSales_def foldl_plus)
  have group: "exact (groupSum field k p)" if p: "prefix p rs" for p k
    using part [OF p, of "\<lambda>r. field r = k"] by (simp add: groupSum_sum_list)
  show ?thesis
    unfolding exactSums_def list_all_iff
    using one total group by (auto simp: in_set_prefixes)
qed


















subsection \<open>The aggregation\<close>

text \<open>
  Claim C1, as amended. The total discount amount is the sum over the records of
  \<open>Sales * Discount\<close>. The discount percentage is
  \<open>totalDiscount / totalSales * 100\<close> when the total sales are strictly positive, and \<open>0\<close>
  otherwise. On the two records of the worked example the total discount amount is \<open>20\<close>
  and the discount percentage of the response, rounded to one decimal, is \<open>13.3\<close>.
\<close>

theorem discountPercentage_weighted:
  "totalDiscount rs = sum_list (map (\<lambda>r. Sales r * Discount r) rs)
   \<and> discountPercentage rs =
       (if 0 < totalSales rs then totalDiscount rs / totalSales rs * 100 else 0)
   \<and> r_discountPercentage (response rs) = of_int (Math_round (discountPercentage rs * 10)) / 10
   \<and> totalDiscount specExample = 20
   \<and> discountPercentage specExample = 40 / 3
   \<and> r_discountPercentage (response specExample) = 133 / 10"
proof -
  have a: "totalDiscount rs = sum_list (map (\<lambda>r. Sales r * Discount r) rs)" for rs
    by (simp add: totalDiscount_def foldl_plus)
  have b: "totalDiscount specExample = 20"
    by (simp add: a specExample_def blankRecord_def)
  have c: "totalSales specExample = 150"
    by (simp add: totalSales_def specExample_def blankRecord_def)
  have d: "discountPercentage specExample = 40 / 3"
    by (simp add: discountPercentage_def b c)
  have "Math_round (discountPercentage specExample * 10) = 133"
    by (simp add: d Math_round_eq)
  then have e: "r_discountPercentage (response specExample) = 133 / 10"
    by (simp add: response_def)
  have f: "r_discountPercentage (response rs) = of_int (Math_round (discountPercentage rs * 10)) / 10"
    by (simp add: response_def)
  have g: "discountPercentage rs =
       (if 0 < totalSales rs then totalDiscount rs / totalSales rs * 100 else 0)"
    by (simp add: discountPercentage_def)
  show ?thesis
    using a [of rs] b d e f g by blast
qed

text \<open>
  Claim C1 as stated fails where the total sales are negative: they are not zero, and the
  discount percentage is \<open>0\<close>, not the quotient (which is \<open>50\<close> here).
\<close>

theorem discountPercentage_negative_total:
  "totalSales refundExample = - 100
   \<and> totalDiscount refundExample = - 50
   \<and> discountPercentage refundExample = 0
   \<and> totalDiscount refundExample / totalSales refundExample * 100 = 50
   \<and> totalSales refundExample \<noteq> 0
   \<and> discountPercentage refundExample
       \<noteq> totalDiscount refundExample / totalSales refundExample * 100"
  by (simp add: totalSales_def totalDiscount_def discountPercentage_def refundExample_def
      blankRecord_def)







subsection \<open>The top products\<close>




subsection \<open>The loader\<close>

lemma getSalesData_eq:
  "getSalesData JSON_parse w =
     (case salesJson w of
        None \<Rightarrow>
          (Inr [], consoleError ''Error reading sales data:''
                     (consoleLog ''Reading sales data from:'' [] w))
      | Some rawData \<Rightarrow>
          (case JSON_parse rawData of
             None \<Rightarrow>
               (Inr [], consoleError ''Error reading sales data:''
                          (consoleLog ''Reading sales data from:'' [] w))
           | Some salesData \<Rightarrow>
               (Inr salesData,
                consoleLog ''Successfully loaded sales data. Number of records:''
                  [LogNum (of_nat (length salesData))]
                  (consoleLog ''Reading sales data from:'' [] w))))"
  by (simp add: getSalesData_def getSalesData_try_def readFileSync_def consoleLog_def
      split: option.splits)

lemma salesJson_consoleLog [simp]: "salesJson (consoleLog msg args w) = salesJson w"
  by (simp add: consoleLog_def)

lemma salesJson_consoleError [simp]: "salesJson (consoleError msg w) = salesJson w"
  by (simp add: consoleError_def)

lemma fst_getSalesData:
  "fst (getSalesData JSON_parse w) =
     Inr (case salesJson w of
            None \<Rightarrow> []
          | Some rawData \<Rightarrow>
              (case JSON_parse rawData of None \<Rightarrow> [] | Some salesData \<Rightarrow> salesData))"
  by (simp add: getSalesData_eq split: option.splits)

lemma salesJson_getSalesData [simp]:
  "salesJson (snd (getSalesData JSON_parse w)) = salesJson w"
  by (simp add: getSalesData_eq split: option.splits)

lemma fst_getSalesData_cong:
  "salesJson w' = salesJson w \<Longrightarrow> fst (getSalesData JSON_parse w') = fst (getSalesData JSON_parse w)"
  by (simp add: fst_getSalesData)

lemma getSalesData_cases:
  obtains salesData w1 where "getSalesData JSON_parse w = (Inr salesData, w1)"
    and "salesJson w1 = salesJson w"
    and "fst (getSalesData JSON_parse w) = Inr salesData"
proof -
  obtain r w1 where eq: "getSalesData JSON_parse w = (r, w1)" by (cases "getSalesData JSON_parse w")
  from eq fst_getSalesData [of JSON_parse w] obtain salesData where "r = Inr salesData" by simp
  moreover from eq salesJson_getSalesData [of JSON_parse w] have "salesJson w1 = salesJson w" by simp
  ultimately show ?thesis using eq that by simp
qed

text \<open>
  Claim C6. The loader never raises: its result is never an exception. It returns the
  parsed records when the file can be read and parsed, and the empty list when the file is
  missing or its content does not parse. It leaves the data file as it is.
\<close>

theorem getSalesData_never_raises:
  "fst (getSalesData JSON_parse w) =
     Inr (case salesJson w of
            None \<Rightarrow> []
          | Some rawData \<Rightarrow>
              (case JSON_parse rawData of None \<Rightarrow> [] | Some salesData \<Rightarrow> salesData))
   \<and> fst (getSalesData JSON_parse w) \<noteq> Inl e
   \<and> salesJson (snd (getSalesData JSON_parse w)) = salesJson w"
  by (simp add: fst_getSalesData)

subsection \<open>The filters\<close>

lemma fst_filterByState:
  "fst (filterByState st (rs, w)) =
     (if truthy st \<and> st \<noteq> Some ''All States''
      then filter (\<lambda>record. Some (State record) = st) rs else rs)"
  by (simp add: filterByState_def Let_def)

lemma salesJson_filterByState [simp]:
  "salesJson (snd (filterByState st (rs, w))) = salesJson w"
  by (simp add: filterByState_def Let_def)

lemma fst_filterByDate:
  "fst (filterByDate Date_parse sd ed (rs, w)) =
     (case (sd, ed) of
        (Some s, Some e) \<Rightarrow>
          if s \<noteq> [] \<and> e \<noteq> [] then
            filter (\<lambda>record. dateGe (Date_parse (OrderDate record)) (Date_parse s)
                       \<and> dateLe (Date_parse (OrderDate record)) (Date_parse e)) rs
          else rs
      | _ \<Rightarrow> rs)"
  by (simp add: filterByDate_def Let_def truthy_def split: option.splits)

lemma salesJson_filterByDate [simp]:
  "salesJson (snd (filterByDate Date_parse sd ed (rs, w))) = salesJson w"
  by (simp add: filterByDate_def Let_def split: option.splits)

lemma fst_filterByDate_world:
  "fst (filterByDate Date_parse sd ed (rs, w)) = fst (filterByDate Date_parse sd ed (rs, w'))"
  by (simp add: fst_filterByDate)

lemma fst_filters_world:
  "fst (filterByDate Date_parse sd ed (filterByState st (rs, w)))
     = fst (filterByDate Date_parse sd ed (filterByState st (rs, w')))"
proof -
  obtain a b where 1: "filterByState st (rs, w) = (a, b)" by (cases "filterByState st (rs, w)")
  obtain a' b' where 2: "filterByState st (rs, w') = (a', b')" by (cases "filterByState st (rs, w')")
  from 1 2 have "a = a'"
    using fst_filterByState [of st rs w] fst_filterByState [of st rs w'] by simp
  with 1 2 show ?thesis
    using fst_filterByDate_world [of Date_parse sd ed a b b'] by simp
qed

text \<open>The two filters are independent: either order keeps the same records.\<close>

lemma filters_commute:
  "fst (filterByDate Date_parse sd ed (filterByState st (rs, w)))
     = fst (filterByState st (filterByDate Date_parse sd ed (rs, w)))"
  by (auto simp add: filterByState_def filterByDate_def Let_def split: option.splits
      intro: filter_cong)



subsection \<open>The summary handler\<close>

lemma fst_getDashboardData:
  assumes "fst (getSalesData JSON_parse w) = Inr salesData"
  shows "fst (getDashboardData JSON_parse Date_parse q w) =
     (if salesData = [] then (500, ErrorBody ''Failed to process dashboard data'')
      else (200, SummaryBody (response (fst (filterByDate Date_parse (startDate q) (endDate q)
                                              (filterByState (state q) (salesData, w')))))))"
proof -
  let ?w0 = "consoleLog ''Received request with params:''
               [LogStr (state q), LogStr (startDate q), LogStr (endDate q)] w"
  obtain sd w1 where g: "getSalesData JSON_parse ?w0 = (Inr sd, w1)"
    and f: "fst (getSalesData JSON_parse ?w0) = Inr sd"
    by (rule getSalesData_cases)
  have "fst (getSalesData JSON_parse ?w0) = fst (getSalesData JSON_parse w)"
    by (rule fst_getSalesData_cong) simp
  with f assms have sd: "sd = salesData" by simp
  show ?thesis
  proof (cases "salesData = []")
    case True
    with g sd show ?thesis
      by (simp add: getDashboardData_def getDashboardData_try_def)
  next
    case False
    obtain fd w2 where h: "filterByDate Date_parse (startDate q) (endDate q)
                             (filterByState (state q) (salesData, w1)) = (fd, w2)"
      by (cases "filterByDate Date_parse (startDate q) (endDate q)
                   (filterByState (state q) (salesData, w1))")
    have "fd = fst (filterByDate Date_parse (startDate q) (endDate q)
                      (filterByState (state q) (salesData, w')))"
      using h fst_filters_world [of Date_parse "startDate q" "endDate q" "state q" salesData w1 w']
      by simp
    with False g sd h show ?thesis
      by (simp add: getDashboardData_def getDashboardData_try_def)
  qed
qed

lemma salesJson_getDashboardData:
  "salesJson (snd (getDashboardData JSON_parse Date_parse q w)) = salesJson w"
proof -
  let ?w0 = "consoleLog ''Received request with params:''
               [LogStr (state q), LogStr (startDate q), LogStr (endDate q)] w"
  obtain sd w1 where g: "getSalesData JSON_parse ?w0 = (Inr sd, w1)"
    and j: "salesJson w1 = salesJson ?w0"
    by (rule getSalesData_cases)
  obtain fs w1' where fs: "filterByState (state q) (sd, w1) = (fs, w1')"
    by (cases "filterByState (state q) (sd, w1)")
  obtain fd w2 where h: "filterByDate Date_parse (startDate q) (endDate q) (fs, w1') = (fd, w2)"
    by (cases "filterByDate Date_parse (startDate q) (endDate q) (fs, w1')")
  have "salesJson w1' = salesJson w1"
    using salesJson_filterByState [of "state q" sd w1] fs by simp
  moreover have "salesJson w2 = salesJson w1'"
    using salesJson_filterByDate [of Date_parse "startDate q" "endDate q" fs w1'] h by simp
  ultimately show ?thesis
    using g j fs h
    by (simp add: getDashboardData_def getDashboardData_try_def)
qed

lemma response_Nil:
  "response [] =
     \<lparr> r_totalSales = 0, r_quantitySold = 0, r_discountPercentage = 0, r_totalProfit = 0,
       r_salesByCity = [], r_salesByProducts = [], r_salesByCategory = [],
       r_salesBySubCategory = [], r_salesBySegment = [] \<rparr>"
  by (simp add: response_def totalSales_def quantitySold_def discountPercentage_def
      totalProfit_def salesByCity_def top10Products_def productSalesMap_def salesByCategory_def
      salesBySubCategory_def salesBySegment_def Object_entries_def Array_sort_def Math_round_eq)

text \<open>
  Claim C3. The summary handler answers with the error reply (status 500 and an error
  body, no summary) exactly when the loader yields no record. When the loader yields
  records and the filters keep none of them, it answers with status 200 and the summary
  whose totals are all zero and whose groupings are all empty.
\<close>

theorem getDashboardData_error_iff_no_data:
  "(fst (getDashboardData JSON_parse Date_parse q w)
      = (500, ErrorBody ''Failed to process dashboard data''))
     = (fst (getSalesData JSON_parse w) = Inr [])
   \<and> (fst (fst (getDashboardData JSON_parse Date_parse q w)) = 500)
       = (fst (getSalesData JSON_parse w) = Inr [])
   \<and> (fst (getSalesData JSON_parse w) = Inr salesData \<and> salesData \<noteq> []
        \<and> fst (filterByDate Date_parse (startDate q) (endDate q)
                 (filterByState (state q) (salesData, w'))) = []
       \<longrightarrow> fst (getDashboardData JSON_parse Date_parse q w) =
             (200, SummaryBody
                \<lparr> r_totalSales = 0, r_quantitySold = 0, r_discountPercentage = 0,
                  r_totalProfit = 0, r_salesByCity = [], r_salesByProducts = [],
                  r_salesByCategory = [], r_salesBySubCategory = [],
                  r_salesBySegment = [] \<rparr>))"
proof -
  obtain sd where sd: "fst (getSalesData JSON_parse w) = Inr sd"
    using fst_getSalesData [of JSON_parse w] by simp
  have 1: "(fst (getDashboardData JSON_parse Date_parse q w)
      = (500, ErrorBody ''Failed to process dashboard data''))
     = (fst (getSalesData JSON_parse w) = Inr [])"
    using fst_getDashboardData [OF sd, of Date_parse q w] sd by simp
  have 2: "(fst (fst (getDashboardData JSON_parse Date_parse q w)) = 500)
       = (fst (getSalesData JSON_parse w) = Inr [])"
    using fst_getDashboardData [OF sd, of Date_parse q w] sd by simp
  have 3: "fst (getDashboardData JSON_parse Date_parse q w) =
             (200, SummaryBody
                \<lparr> r_totalSales = 0, r_quantitySold = 0, r_discountPercentage = 0,
                  r_totalProfit = 0, r_salesByCity = [], r_salesByProducts = [],
                  r_salesByCategory = [], r_salesBySubCategory = [],
                  r_salesBySegment = [] \<rparr>)"
    if "fst (getSalesData JSON_parse w) = Inr salesData" "salesData \<noteq> []"
       "fst (filterByDate Date_parse (startDate q) (endDate q)
                 (filterByState (state q) (salesData, w'))) = []"
    using fst_getDashboardData [OF that(1), of Date_parse q w'] that(2,3)
    by (simp add: response_Nil)
  show ?thesis
    using 1 2 3 by blast
qed

lemma sampleJSON_parse_simps:
  "sampleJSON_parse ''specExample'' = Some specExample"
  "sampleJSON_parse ''texasExample'' = Some texasExample"
  "sampleJSON_parse ''badDateExample'' = Some badDateExample"
  "sampleJSON_parse ''[]'' = Some []"
  by (simp_all add: sampleJSON_parse_def)

lemma specExample_not_Nil: "specExample \<noteq> []"
  by (simp add: specExample_def)

text \<open>A region that matches no record of the worked example.\<close>

theorem getDashboardData_error_iff_no_data_witness:
  "fst (getSalesData sampleJSON_parse (worldWith (Some ''specExample''))) = Inr specExample
   \<and> specExample \<noteq> []
   \<and> fst (filterByDate sampleDate_parse None None
            (filterByState (Some ''Nowhere'') (specExample, worldWith None))) = []
   \<and> fst (getDashboardData sampleJSON_parse sampleDate_parse
            \<lparr> state = Some ''Nowhere'', startDate = None, endDate = None \<rparr>
            (worldWith (Some ''specExample''))) =
         (200, SummaryBody
            \<lparr> r_totalSales = 0, r_quantitySold = 0, r_discountPercentage = 0,
              r_totalProfit = 0, r_salesByCity = [], r_salesByProducts = [],
              r_salesByCategory = [], r_salesBySubCategory = [],
              r_salesBySegment = [] \<rparr>)"
proof -
  have 1: "fst (getSalesData sampleJSON_parse (worldWith (Some ''specExample''))) = Inr specExample"
    by (simp add: fst_getSalesData worldWith_def sampleJSON_parse_simps)
  have 2: "fst (filterByDate sampleDate_parse None None
            (filterByState (Some ''Nowhere'') (specExample, worldWith None))) = []"
    by (simp add: filterByState_def filterByDate_def truthy_def specExample_def blankRecord_def)
  show ?thesis
    using getDashboardData_error_iff_no_data [where JSON_parse = sampleJSON_parse and Date_parse = sampleDate_parse
        and q = "\<lparr> state = Some ''Nowhere'', startDate = None, endDate = None \<rparr>"
        and w = "worldWith (Some ''specExample'')" and salesData = specExample
        and w' = "worldWith None"] 1 2 specExample_not_Nil
    by simp
qed

text \<open>
  Claim C9. The summary handler leaves the data file as it is, and its reply depends on
  the world through the data file only: two worlds with the same file content, whatever
  was written to the console, give the same reply for the same parameters. So a second
  invocation, run in the world the first one leaves, gives the reply of the first.
\<close>

theorem getDashboardData_deterministic:
  "salesJson (snd (getDashboardData JSON_parse Date_parse q w)) = salesJson w
   \<and> (salesJson w' = salesJson w \<longrightarrow>
        fst (getDashboardData JSON_parse Date_parse q w')
          = fst (getDashboardData JSON_parse Date_parse q w))
   \<and> fst (getDashboardData JSON_parse Date_parse q
            (snd (getDashboardData JSON_parse Date_parse q w)))
       = fst (getDashboardData JSON_parse Date_parse q w)"
proof -
  have same: "fst (getDashboardData JSON_parse Date_parse q w2)
          = fst (getDashboardData JSON_parse Date_parse q w1)"
    if "salesJson w2 = salesJson w1" for w1 w2
  proof -
    obtain sd where sd: "fst (getSalesData JSON_parse w1) = Inr sd"
      using fst_getSalesData [of JSON_parse w1] by simp
    with that have sd': "fst (getSalesData JSON_parse w2) = Inr sd"
      by (simp add: fst_getSalesData)
    show ?thesis
      using fst_getDashboardData [OF sd, of Date_parse q w1]
        fst_getDashboardData [OF sd', of Date_parse q w1]
      by simp
  qed
  have kept: "salesJson (snd (getDashboardData JSON_parse Date_parse q w)) = salesJson w"
    by (rule salesJson_getDashboardData)
  show ?thesis
    using same [of w' w] kept same [OF kept] by blast
qed

text \<open>Two worlds with the same data file and different consoles.\<close>

theorem getDashboardData_deterministic_witness:
  "salesJson (worldWith (Some ''specExample'')\<lparr>console := [ConsoleError ''earlier'']\<rparr>)
     = salesJson (worldWith (Some ''specExample''))
   \<and> fst (getDashboardData sampleJSON_parse sampleDate_parse
            \<lparr> state = Some ''Nowhere'', startDate = None, endDate = None \<rparr>
            (worldWith (Some ''specExample'')\<lparr>console := [ConsoleError ''earlier'']\<rparr>))
       = fst (getDashboardData sampleJSON_parse sampleDate_parse
            \<lparr> state = Some ''Nowhere'', startDate = None, endDate = None \<rparr>
            (worldWith (Some ''specExample'')))"
proof -
  have h: "salesJson (worldWith (Some ''specExample'')\<lparr>console := [ConsoleError ''earlier'']\<rparr>)
     = salesJson (worldWith (Some ''specExample''))"
    by (simp add: worldWith_def)
  show ?thesis
    using getDashboardData_deterministic [where JSON_parse = sampleJSON_parse and Date_parse = sampleDate_parse
        and q = "\<lparr> state = Some ''Nowhere'', startDate = None, endDate = None \<rparr>"
        and w = "worldWith (Some ''specExample'')"
        and w' = "worldWith (Some ''specExample'')\<lparr>console := [ConsoleError ''earlier'']\<rparr>"] h
    by blast
qed

text \<open>
  Claim C10. With the \<open>state\<close> parameter undefined or empty the reply is the reply for
  \<^verbatim>\<open>All States\<close>; when the loader yields records, it is the summary of all of them that pass
  the date filter: no region filter is applied.
\<close>

theorem getDashboardData_absent_state:
  "fst (getDashboardData JSON_parse Date_parse (q\<lparr>state := None\<rparr>) w)
     = fst (getDashboardData JSON_parse Date_parse (q\<lparr>state := Some ''All States''\<rparr>) w)
   \<and> fst (getDashboardData JSON_parse Date_parse (q\<lparr>state := Some []\<rparr>) w)
     = fst (getDashboardData JSON_parse Date_parse (q\<lparr>state := Some ''All States''\<rparr>) w)
   \<and> (fst (getSalesData JSON_parse w) = Inr salesData \<and> salesData \<noteq> [] \<longrightarrow>
        fst (getDashboardData JSON_parse Date_parse (q\<lparr>state := None\<rparr>) w) =
          (200, SummaryBody (response
             (fst (filterByDate Date_parse (startDate q) (endDate q) (salesData, w'))))))"
proof -
  obtain sd where sd: "fst (getSalesData JSON_parse w) = Inr sd"
    using fst_getSalesData [of JSON_parse w] by simp
  have r: "fst (getDashboardData JSON_parse Date_parse (q\<lparr>state := st\<rparr>) w) =
     (if sd = [] then (500, ErrorBody ''Failed to process dashboard data'')
      else (200, SummaryBody (response (fst (filterByDate Date_parse (startDate q) (endDate q)
                                              (sd, w'))))))"
    if "\<not> truthy st \<or> st = Some ''All States''" for st
  proof -
    have "filterByState st (sd, w') = (sd, w')"
      using that by (auto simp add: filterByState_def)
    then show ?thesis
      using fst_getDashboardData [OF sd, of Date_parse "q\<lparr>state := st\<rparr>" w'] by simp
  qed
  have 1: "fst (getDashboardData JSON_parse Date_parse (q\<lparr>state := None\<rparr>) w)
     = fst (getDashboardData JSON_parse Date_parse (q\<lparr>state := Some ''All States''\<rparr>) w)"
    using r [of None] r [of "Some ''All States''"] by (simp add: truthy_def)
  have 2: "fst (getDashboardData JSON_parse Date_parse (q\<lparr>state := Some []\<rparr>) w)
     = fst (getDashboardData JSON_parse Date_parse (q\<lparr>state := Some ''All States''\<rparr>) w)"
    using r [of "Some []"] r [of "Some ''All States''"] by (simp add: truthy_def)
  have 3: "fst (getDashboardData JSON_parse Date_parse (q\<lparr>state := None\<rparr>) w) =
          (200, SummaryBody (response
             (fst (filterByDate Date_parse (startDate q) (endDate q) (salesData, w')))))"
    if "fst (getSalesData JSON_parse w) = Inr salesData" "salesData \<noteq> []"
    using r [of None] that sd by (simp add: truthy_def)
  show ?thesis
    using 1 2 3 by blast
qed

lemma response_specExample:
  "response specExample =
     \<lparr> r_totalSales = 150, r_quantitySold = 3, r_discountPercentage = 133 / 10,
       r_totalProfit = 15, r_salesByCity = [(''A'', Num 100), (''B'', Num 50)],
       r_salesByProducts = [([], Num 150)], r_salesByCategory = [([], Num 150)],
       r_salesBySubCategory = [([], Num 150)], r_salesBySegment = [([], Num 150)] \<rparr>"
proof -
  have t: "totalSales specExample = 150" "totalProfit specExample = 15"
    "quantitySold specExample = 3"
    by (simp_all add: totalSales_def totalProfit_def quantitySold_def specExample_def
        blankRecord_def)
  have dp: "discountPercentage specExample = 40 / 3"
    by (simp add: discountPercentage_def totalDiscount_def totalSales_def specExample_def
        blankRecord_def)
  have r: "Math_round 150 = 150" "Math_round 15 = 15" "Math_round (400 / 3) = 133"
    by (simp_all add: Math_round_eq)
  have g: "salesByCity specExample = [(''A'', Num 100), (''B'', Num 50)]"
    "salesByCategory specExample = [([], Num 150)]" "salesBySegment specExample = [([], Num 150)]"
    "salesBySubCategory specExample = [([], Num 150)]" "top10Products specExample = [([], Num 150)]"
    by (simp_all add: salesByCity_def salesByCategory_def salesBySegment_def
        salesBySubCategory_def top10Products_def productSalesMap_def addSales_def
        setProperty_def getProperty_def orZeroPlus_def objectPrototypeNames_def
        Object_entries_def Array_sort_def not_isArrayIndex_Nil specExample_def blankRecord_def)
  show ?thesis
    by (simp add: response_def t dp r g)
qed

text \<open>The worked example, with no region and with \<^verbatim>\<open>All States\<close>.\<close>

theorem getDashboardData_absent_state_witness:
  "fst (getSalesData sampleJSON_parse (worldWith (Some ''specExample''))) = Inr specExample
   \<and> specExample \<noteq> []
   \<and> fst (getDashboardData sampleJSON_parse sampleDate_parse
            \<lparr> state = None, startDate = None, endDate = None \<rparr>
            (worldWith (Some ''specExample''))) =
         (200, SummaryBody
            \<lparr> r_totalSales = 150, r_quantitySold = 3, r_discountPercentage = 133 / 10,
              r_totalProfit = 15, r_salesByCity = [(''A'', Num 100), (''B'', Num 50)],
              r_salesByProducts = [([], Num 150)], r_salesByCategory = [([], Num 150)],
              r_salesBySubCategory = [([], Num 150)], r_salesBySegment = [([], Num 150)] \<rparr>)
   \<and> fst (getDashboardData sampleJSON_parse sampleDate_parse
            \<lparr> state = Some ''All States'', startDate = None, endDate = None \<rparr>
            (worldWith (Some ''specExample''))) =
         (200, SummaryBody
            \<lparr> r_totalSales = 150, r_quantitySold = 3, r_discountPercentage = 133 / 10,
              r_totalProfit = 15, r_salesByCity = [(''A'', Num 100), (''B'', Num 50)],
              r_salesByProducts = [([], Num 150)], r_salesByCategory = [([], Num 150)],
              r_salesBySubCategory = [([], Num 150)], r_salesBySegment = [([], Num 150)] \<rparr>)"
proof -
  let ?w = "worldWith (Some ''specExample'')"
  let ?q = "\<lparr> state = None, startDate = None, endDate = None \<rparr>"
  note t = getDashboardData_absent_state [where JSON_parse = sampleJSON_parse and Date_parse = sampleDate_parse
        and q = ?q and w = ?w and salesData = specExample and w' = "worldWith None"]
  have 1: "fst (getSalesData sampleJSON_parse ?w) = Inr specExample"
    by (simp add: fst_getSalesData worldWith_def sampleJSON_parse_simps)
  have 2: "fst (filterByDate sampleDate_parse None None (specExample, worldWith None)) = specExample"
    by (simp add: filterByDate_def)
  have 3: "fst (getDashboardData sampleJSON_parse sampleDate_parse ?q ?w)
             = (200, SummaryBody (response specExample))"
    using t [THEN conjunct2, THEN conjunct2] 1 2 specExample_not_Nil by simp
  have 4: "fst (getDashboardData sampleJSON_parse sampleDate_parse
                  \<lparr> state = Some ''All States'', startDate = None, endDate = None \<rparr> ?w)
             = fst (getDashboardData sampleJSON_parse sampleDate_parse ?q ?w)"
    using t [THEN conjunct1] by simp
  show ?thesis
    unfolding 4 3 response_specExample using 1 specExample_not_Nil by simp
qed

subsection \<open>The date range handler\<close>

lemma fst_getDateRange:
  assumes "fst (getSalesData JSON_parse w) = Inr salesData"
  shows "fst (getDateRange JSON_parse Date_parse toISOString maxArguments st w) =
     (let stateRecords = filter (\<lambda>record. State record = st) salesData;
          dates = map (\<lambda>record. Date_parse (OrderDate record)) stateRecords
      in if stateRecords = [] then (404, ErrorBody ''State not found'')
         else if maxArguments < length stateRecords \<or> None \<in> set dates
         then (500, ErrorBody ''Failed to fetch date range'')
         else (200, DateRangeBody
                 (takeWhile (\<lambda>c. c \<noteq> CHR ''T'') (toISOString (Min (set (map the dates)))))
                 (takeWhile (\<lambda>c. c \<noteq> CHR ''T'') (toISOString (Max (set (map the dates)))))))"
proof -
  obtain sd w1 where g: "getSalesData JSON_parse w = (Inr sd, w1)"
    and f: "fst (getSalesData JSON_parse w) = Inr sd"
    by (rule getSalesData_cases)
  from f assms have sd: "sd = salesData" by simp
  show ?thesis
    using g sd
    by (simp add: getDateRange_def getDateRange_try_def Let_def dateOfMin_def dateOfMax_def
        isoDay_def)
qed

text \<open>
  Where every date string prints back as written, the printed date of the least time value
  is the order date of a record that no record precedes; and so for the greatest.
\<close>

lemma earliest_latest:
  assumes ne: "rs \<noteq> []"
    and pb: "list_all (\<lambda>record. printsBack Date_parse toISOString (OrderDate record)) rs"
  shows "\<exists>a\<in>set rs. \<exists>b\<in>set rs.
           takeWhile (\<lambda>c. c \<noteq> CHR ''T'')
             (toISOString (Min (set (map the (map (\<lambda>record. Date_parse (OrderDate record)) rs)))))
             = OrderDate a
         \<and> takeWhile (\<lambda>c. c \<noteq> CHR ''T'')
             (toISOString (Max (set (map the (map (\<lambda>record. Date_parse (OrderDate record)) rs)))))
             = OrderDate b
         \<and> (\<forall>record\<in>set rs.
               dateLe (Date_parse (OrderDate a)) (Date_parse (OrderDate record))
               \<and> dateLe (Date_parse (OrderDate record)) (Date_parse (OrderDate b)))"
proof -
  let ?t = "\<lambda>record. the (Date_parse (OrderDate record))"
  let ?T = "set (map the (map (\<lambda>record. Date_parse (OrderDate record)) rs))"
  have T: "?T = ?t ` set rs" by (simp add: image_image)
  have fin: "finite ?T" and nonempty: "?T \<noteq> {}"
    using ne by simp_all
  have parsed: "Date_parse (OrderDate r) = Some (?t r)
      \<and> takeWhile (\<lambda>c. c \<noteq> CHR ''T'') (toISOString (?t r)) = OrderDate r"
    if "r \<in> set rs" for r
    using pb that by (auto simp: list_all_iff printsBack_def split: option.splits)
  from Min_in [OF fin nonempty] obtain a where a: "a \<in> set rs" "?t a = Min ?T"
    unfolding T by auto
  from Max_in [OF fin nonempty] obtain b where b: "b \<in> set rs" "?t b = Max ?T"
    unfolding T by auto
  have le: "Min ?T \<le> ?t r \<and> ?t r \<le> Max ?T" if "r \<in> set rs" for r
  proof -
    from that have "?t r \<in> ?T" unfolding T by simp
    then show ?thesis using fin by simp
  qed
  have "dateLe (Date_parse (OrderDate a)) (Date_parse (OrderDate r))
      \<and> dateLe (Date_parse (OrderDate r)) (Date_parse (OrderDate b))"
    if rin: "r \<in> set rs" for r
  proof -
    obtain tr ta tb where t: "Date_parse (OrderDate r) = Some tr"
      "Date_parse (OrderDate a) = Some ta" "Date_parse (OrderDate b) = Some tb"
      using parsed [OF rin] parsed [OF a(1)] parsed [OF b(1)] by blast
    then have "?t r = tr" "?t a = ta" "?t b = tb" by simp_all
    with le [OF rin] a(2) b(2) have "ta \<le> tr" "tr \<le> tb" by simp_all
    with t show ?thesis by (simp add: dateLe_def)
  qed
  moreover have "takeWhile (\<lambda>c. c \<noteq> CHR ''T'') (toISOString (Min ?T)) = OrderDate a"
    using parsed [OF a(1)] a(2) by simp
  moreover have "takeWhile (\<lambda>c. c \<noteq> CHR ''T'') (toISOString (Max ?T)) = OrderDate b"
    using parsed [OF b(1)] b(2) by simp
  ultimately show ?thesis
    using a(1) b(1) by blast
qed

text \<open>
  Claim C5, as amended. The date range handler answers 404 (with an error body) if and
  only if the region matches no record. When it matches records, no more of them than the
  engine accepts as the arguments of one call, and the order date of each is a valid date
  written \<^verbatim>\<open>YYYY-MM-DD\<close> that prints back as written, the reply is status 200 with the
  minimum and the maximum order date of these records: the order date of a record that no
  matching record precedes, and that of one that no matching record follows, each as
  written. When it matches records and one of their order dates is not a valid date, or
  they are more than the engine accepts as arguments, the reply is status 500 with an
  error body.
\<close>

theorem getDateRange_not_found_iff:
  "(fst (getSalesData JSON_parse w) = Inr salesData \<longrightarrow>
      ((fst (getDateRange JSON_parse Date_parse toISOString maxArguments st w)
          = (404, ErrorBody ''State not found''))
        = (filter (\<lambda>record. State record = st) salesData = []))
      \<and> ((fst (fst (getDateRange JSON_parse Date_parse toISOString maxArguments st w)) = 404)
        = (filter (\<lambda>record. State record = st) salesData = [])))
   \<and> (fst (getSalesData JSON_parse w) = Inr salesData
        \<and> filter (\<lambda>record. State record = st) salesData \<noteq> []
        \<and> length (filter (\<lambda>record. State record = st) salesData) \<le> maxArguments
        \<and> list_all (\<lambda>record. isCalendarDate (OrderDate record)
                         \<and> printsBack Date_parse toISOString (OrderDate record))
              (filter (\<lambda>record. State record = st) salesData)
       \<longrightarrow> (\<exists>a\<in>set (filter (\<lambda>record. State record = st) salesData).
            \<exists>b\<in>set (filter (\<lambda>record. State record = st) salesData).
              fst (getDateRange JSON_parse Date_parse toISOString maxArguments st w)
                = (200, DateRangeBody (OrderDate a) (OrderDate b))
              \<and> isCalendarDate (OrderDate a) \<and> isCalendarDate (OrderDate b)
              \<and> (\<forall>record\<in>set (filter (\<lambda>record. State record = st) salesData).
                    dateLe (Date_parse (OrderDate a)) (Date_parse (OrderDate record))
                    \<and> dateLe (Date_parse (OrderDate record)) (Date_parse (OrderDate b)))))
   \<and> (fst (getSalesData JSON_parse w) = Inr salesData
        \<and> filter (\<lambda>record. State record = st) salesData \<noteq> []
        \<and> (maxArguments < length (filter (\<lambda>record. State record = st) salesData)
            \<or> \<not> list_all (\<lambda>record. Date_parse (OrderDate record) \<noteq> None)
                  (filter (\<lambda>record. State record = st) salesData))
       \<longrightarrow> fst (getDateRange JSON_parse Date_parse toISOString maxArguments st w) =
             (500, ErrorBody ''Failed to fetch date range''))"
proof -
  let ?rs = "filter (\<lambda>record. State record = st) salesData"
  let ?reply = "fst (getDateRange JSON_parse Date_parse toISOString maxArguments st w)"
  have parsed: "(None \<in> set (map (\<lambda>record. Date_parse (OrderDate record)) ?rs))
      = (\<not> list_all (\<lambda>record. Date_parse (OrderDate record) \<noteq> None) ?rs)"
    by (simp only: list_all_iff set_map) force
  have 1: "(?reply = (404, ErrorBody ''State not found'')) = (?rs = [])"
    and 2: "(fst ?reply = 404) = (?rs = [])"
    if "fst (getSalesData JSON_parse w) = Inr salesData"
    using fst_getDateRange [OF that, of Date_parse toISOString maxArguments st]
    by (simp_all add: Let_def)
  have 3: "\<exists>a\<in>set ?rs. \<exists>b\<in>set ?rs.
              ?reply = (200, DateRangeBody (OrderDate a) (OrderDate b))
              \<and> isCalendarDate (OrderDate a) \<and> isCalendarDate (OrderDate b)
              \<and> (\<forall>record\<in>set ?rs.
                    dateLe (Date_parse (OrderDate a)) (Date_parse (OrderDate record))
                    \<and> dateLe (Date_parse (OrderDate record)) (Date_parse (OrderDate b)))"
    if l: "fst (getSalesData JSON_parse w) = Inr salesData" and ne: "?rs \<noteq> []"
      and fits: "length ?rs \<le> maxArguments"
      and wr: "list_all (\<lambda>record. isCalendarDate (OrderDate record)
                         \<and> printsBack Date_parse toISOString (OrderDate record)) ?rs"
  proof -
    from wr have cal: "\<And>r. r \<in> set ?rs \<Longrightarrow> isCalendarDate (OrderDate r)"
      and pb: "list_all (\<lambda>record. printsBack Date_parse toISOString (OrderDate record)) ?rs"
      by (simp_all add: list_all_iff)
    from pb have "list_all (\<lambda>record. Date_parse (OrderDate record) \<noteq> None) ?rs"
      by (auto simp: list_all_iff printsBack_def split: option.splits)
    with parsed have np: "None \<notin> set (map (\<lambda>record. Date_parse (OrderDate record)) ?rs)"
      by simp
    have r: "?reply = (200, DateRangeBody
                 (takeWhile (\<lambda>c. c \<noteq> CHR ''T'') (toISOString (Min (set (map the
                    (map (\<lambda>record. Date_parse (OrderDate record)) ?rs))))))
                 (takeWhile (\<lambda>c. c \<noteq> CHR ''T'') (toISOString (Max (set (map the
                    (map (\<lambda>record. Date_parse (OrderDate record)) ?rs)))))))"
      using fst_getDateRange [OF l, of Date_parse toISOString maxArguments st] ne fits np
      by (simp add: Let_def)
    from earliest_latest [OF ne pb] obtain a b where ab: "a \<in> set ?rs" "b \<in> set ?rs"
      "takeWhile (\<lambda>c. c \<noteq> CHR ''T'') (toISOString (Min (set (map the
          (map (\<lambda>record. Date_parse (OrderDate record)) ?rs))))) = OrderDate a"
      "takeWhile (\<lambda>c. c \<noteq> CHR ''T'') (toISOString (Max (set (map the
          (map (\<lambda>record. Date_parse (OrderDate record)) ?rs))))) = OrderDate b"
      "\<forall>record\<in>set ?rs.
          dateLe (Date_parse (OrderDate a)) (Date_parse (OrderDate record))
          \<and> dateLe (Date_parse (OrderDate record)) (Date_parse (OrderDate b))"
      by blast
    from r ab(3,4) have "?reply = (200, DateRangeBody (OrderDate a) (OrderDate b))"
      by simp
    with ab(1,2,5) cal [OF ab(1)] cal [OF ab(2)] show ?thesis
      by blast
  qed
  have 4: "?reply = (500, ErrorBody ''Failed to fetch date range'')"
    if "fst (getSalesData JSON_parse w) = Inr salesData" "?rs \<noteq> []"
      "maxArguments < length ?rs
         \<or> \<not> list_all (\<lambda>record. Date_parse (OrderDate record) \<noteq> None) ?rs"
    using fst_getDateRange [OF that(1), of Date_parse toISOString maxArguments st] that(2,3) parsed
    by (auto simp add: Let_def)
  show ?thesis
    using 1 2 3 4 by blast
qed

text \<open>The range of the Texas orders, and a region that matches nothing.\<close>

theorem getDateRange_not_found_iff_witness:
  "fst (getSalesData sampleJSON_parse (worldWith (Some ''texasExample''))) = Inr texasExample
   \<and> filter (\<lambda>record. State record = ''Texas'') texasExample \<noteq> []
   \<and> length (filter (\<lambda>record. State record = ''Texas'') texasExample) \<le> sampleMaxArguments
   \<and> list_all (\<lambda>record. isCalendarDate (OrderDate record)
                    \<and> printsBack sampleDate_parse sampleToISOString (OrderDate record))
         (filter (\<lambda>record. State record = ''Texas'') texasExample)
   \<and> fst (getDateRange sampleJSON_parse sampleDate_parse sampleToISOString sampleMaxArguments
            ''Texas'' (worldWith (Some ''texasExample'')))
       = (200, DateRangeBody ''2017-01-01'' ''2017-12-31'')
   \<and> filter (\<lambda>record. State record = ''Utah'') texasExample = []
   \<and> fst (getDateRange sampleJSON_parse sampleDate_parse sampleToISOString sampleMaxArguments
            ''Utah'' (worldWith (Some ''texasExample'')))
       = (404, ErrorBody ''State not found'')"
proof -
  let ?w = "worldWith (Some ''texasExample'')"
  let ?S = "filter (\<lambda>record. State record = ''Texas'') texasExample"
  let ?reply = "fst (getDateRange sampleJSON_parse sampleDate_parse sampleToISOString
                       sampleMaxArguments ''Texas'' ?w)"
  note t = getDateRange_not_found_iff [where JSON_parse = sampleJSON_parse and Date_parse = sampleDate_parse
        and toISOString = sampleToISOString and maxArguments = sampleMaxArguments and w = ?w
        and salesData = texasExample]
  have 1: "fst (getSalesData sampleJSON_parse ?w) = Inr texasExample"
    by (simp add: fst_getSalesData worldWith_def sampleJSON_parse_simps)
  have 2: "?S \<noteq> []"
    by (simp add: texasExample_def blankRecord_def)
  have 3: "length ?S \<le> sampleMaxArguments"
    by (simp add: texasExample_def blankRecord_def sampleMaxArguments_def)
  have 4: "list_all (\<lambda>record. isCalendarDate (OrderDate record)
                    \<and> printsBack sampleDate_parse sampleToISOString (OrderDate record)) ?S"
    by (simp add: texasExample_def blankRecord_def isCalendarDate_def isDigit_def
        printsBack_def sampleDate_parse_def sampleToISOString_def)
  have 5: "filter (\<lambda>record. State record = ''Utah'') texasExample = []"
    by (simp add: texasExample_def blankRecord_def)
  from t [where st = "''Texas''"] 1 2 3 4
  obtain a b where ab: "a \<in> set ?S" "b \<in> set ?S"
    "?reply = (200, DateRangeBody (OrderDate a) (OrderDate b))"
    "\<forall>r\<in>set ?S.
        dateLe (sampleDate_parse (OrderDate a)) (sampleDate_parse (OrderDate r))
        \<and> dateLe (sampleDate_parse (OrderDate r)) (sampleDate_parse (OrderDate b))"
    by blast
  have S: "map OrderDate ?S = [''2017-06-15'', ''2017-01-01'', ''2017-12-31'']"
    by (simp add: texasExample_def blankRecord_def)
  have lo: "dateLe (sampleDate_parse (OrderDate a)) (sampleDate_parse ''2017-01-01'')"
    and hi: "dateLe (sampleDate_parse ''2017-12-31'') (sampleDate_parse (OrderDate b))"
    using ab(4) by (simp_all add: texasExample_def blankRecord_def)
  from ab(1) have "OrderDate a \<in> set (map OrderDate ?S)" by simp
  with lo have a: "OrderDate a = ''2017-01-01''"
    unfolding S by (auto simp add: dateLe_def sampleDate_parse_def)
  from ab(2) have "OrderDate b \<in> set (map OrderDate ?S)" by simp
  with hi have b: "OrderDate b = ''2017-12-31''"
    unfolding S by (auto simp add: dateLe_def sampleDate_parse_def)
  have 6: "?reply = (200, DateRangeBody ''2017-01-01'' ''2017-12-31'')"
    using ab(3) a b by simp
  have 7: "fst (getDateRange sampleJSON_parse sampleDate_parse sampleToISOString
                  sampleMaxArguments ''Utah'' ?w)
       = (404, ErrorBody ''State not found'')"
    using t [where st = "''Utah''"] 1 5 by blast
  show ?thesis
    using 1 2 3 4 5 6 7 by blast
qed

lemma sampleJSON_parse_more:
  "sampleJSON_parse ''manyOrdersExample'' = Some manyOrdersExample"
  "sampleJSON_parse ''monthFirstExample'' = Some monthFirstExample"
  by (simp_all add: sampleJSON_parse_def)

text \<open>
  Claim C5 as stated fails in three ways, each on a region that matches records. With an
  order date that is not a date the reply is the error reply. With ten million matching
  records, all of a valid date, the reply is the error reply. With the order date
  8 November 2016 written month first, which the sample server reads as its local midnight,
  the reply gives 7 November 2016.
\<close>

theorem getDateRange_no_range:
  "fst (getSalesData sampleJSON_parse (worldWith (Some ''badDateExample''))) = Inr badDateExample
   \<and> filter (\<lambda>record. State record = ''Texas'') badDateExample \<noteq> []
   \<and> fst (getDateRange sampleJSON_parse sampleDate_parse sampleToISOString sampleMaxArguments
            ''Texas'' (worldWith (Some ''badDateExample'')))
       = (500, ErrorBody ''Failed to fetch date range'')
   \<and> fst (getSalesData sampleJSON_parse (worldWith (Some ''manyOrdersExample'')))
       = Inr manyOrdersExample
   \<and> filter (\<lambda>record. State record = ''Texas'') manyOrdersExample \<noteq> []
   \<and> list_all (\<lambda>record. sampleDate_parse (OrderDate record) = Some 1497484800000)
         manyOrdersExample
   \<and> fst (getDateRange sampleJSON_parse sampleDate_parse sampleToISOString sampleMaxArguments
            ''Texas'' (worldWith (Some ''manyOrdersExample'')))
       = (500, ErrorBody ''Failed to fetch date range'')
   \<and> fst (getSalesData sampleJSON_parse (worldWith (Some ''monthFirstExample'')))
       = Inr monthFirstExample
   \<and> map OrderDate (filter (\<lambda>record. State record = ''Texas'') monthFirstExample)
       = [''11/8/2016'']
   \<and> fst (getDateRange sampleJSON_parse sampleDate_parse sampleToISOString sampleMaxArguments
            ''Texas'' (worldWith (Some ''monthFirstExample'')))
       = (200, DateRangeBody ''2016-11-07'' ''2016-11-07'')"
proof -
  have bad: "fst (getSalesData sampleJSON_parse (worldWith (Some ''badDateExample'')))
        = Inr badDateExample
   \<and> filter (\<lambda>record. State record = ''Texas'') badDateExample \<noteq> []
   \<and> fst (getDateRange sampleJSON_parse sampleDate_parse sampleToISOString sampleMaxArguments
            ''Texas'' (worldWith (Some ''badDateExample'')))
       = (500, ErrorBody ''Failed to fetch date range'')"
    by (simp add: getDateRange_def getDateRange_try_def getSalesData_def getSalesData_try_def
        readFileSync_def consoleLog_def consoleError_def worldWith_def sampleJSON_parse_def
        sampleDate_parse_def sampleMaxArguments_def badDateExample_def blankRecord_def
        dateOfMin_def dateOfMax_def isoDay_def)
  have many1: "fst (getSalesData sampleJSON_parse (worldWith (Some ''manyOrdersExample'')))
       = Inr manyOrdersExample"
    by (simp add: fst_getSalesData worldWith_def sampleJSON_parse_more)
  have many2: "filter (\<lambda>record. State record = ''Texas'') manyOrdersExample = manyOrdersExample"
    by (simp add: manyOrdersExample_def blankRecord_def filter_replicate)
  have many3: "length manyOrdersExample = 10000000" "manyOrdersExample \<noteq> []"
    by (auto simp add: manyOrdersExample_def)
  have many4: "list_all (\<lambda>record. sampleDate_parse (OrderDate record) = Some 1497484800000)
         manyOrdersExample"
    by (simp add: manyOrdersExample_def blankRecord_def list_all_iff sampleDate_parse_def)
  have many5: "fst (getDateRange sampleJSON_parse sampleDate_parse sampleToISOString
            sampleMaxArguments ''Texas'' (worldWith (Some ''manyOrdersExample'')))
       = (500, ErrorBody ''Failed to fetch date range'')"
    using fst_getDateRange [OF many1, of sampleDate_parse sampleToISOString sampleMaxArguments
        "''Texas''"]
    by (simp add: Let_def many2 many3 sampleMaxArguments_def)
  have shift: "fst (getSalesData sampleJSON_parse (worldWith (Some ''monthFirstExample'')))
       = Inr monthFirstExample
   \<and> map OrderDate (filter (\<lambda>record. State record = ''Texas'') monthFirstExample)
       = [''11/8/2016'']
   \<and> fst (getDateRange sampleJSON_parse sampleDate_parse sampleToISOString sampleMaxArguments
            ''Texas'' (worldWith (Some ''monthFirstExample'')))
       = (200, DateRangeBody ''2016-11-07'' ''2016-11-07'')"
    by (simp add: getDateRange_def getDateRange_try_def getSalesData_def getSalesData_try_def
        readFileSync_def consoleLog_def consoleError_def worldWith_def sampleJSON_parse_def
        sampleDate_parse_def sampleToISOString_def sampleMaxArguments_def monthFirstExample_def
        blankRecord_def dateOfMin_def dateOfMax_def isoDay_def)
  show ?thesis
    using bad many1 many2 many3 many4 many5 shift by simp
qed

end
